theory Spec2Isabelle
  imports Complex_Main
begin

section \<open>Numbers, vectors and orientations\<close>

text \<open>
  The program is a single TypeScript module, \<^verbatim>\<open>src/App.tsx\<close>. Its numbers are
  JavaScript numbers; they are modelled as reals, that is, as finite doubles whose
  rounding is idealised. \<^verbatim>\<open>Math.PI\<close> is \<open>pi\<close>, \<^verbatim>\<open>Math.cos\<close> and \<^verbatim>\<open>Math.sin\<close>
  are \<open>cos\<close> and \<open>sin\<close>, \<^verbatim>\<open>Math.min\<close> and \<^verbatim>\<open>Math.max\<close> are \<open>min\<close> and \<open>max\<close>.

  \<^verbatim>\<open>THREE.Vector3\<close> is a triple of numbers. The three methods the module calls on it
  are written out: \<^verbatim>\<open>multiplyScalar\<close>, \<^verbatim>\<open>length\<close> and \<^verbatim>\<open>normalize\<close> (here \<open>normalize3\<close>), which divides
  by \<^verbatim>\<open>length() || 1\<close>.
\<close>

datatype vec3 = Vector3 (vx: real) (vy: real) (vz: real)

fun multiplyScalar :: "vec3 \<Rightarrow> real \<Rightarrow> vec3" where
  "multiplyScalar (Vector3 a b c) s = Vector3 (a * s) (b * s) (c * s)"

fun length3 :: "vec3 \<Rightarrow> real" where
  "length3 (Vector3 a b c) = sqrt (a * a + b * b + c * c)"

fun divideScalar :: "vec3 \<Rightarrow> real \<Rightarrow> vec3" where
  "divideScalar (Vector3 a b c) s = Vector3 (a / s) (b / s) (c / s)"

definition normalize3 :: "vec3 \<Rightarrow> vec3" where
  "normalize3 v = divideScalar v (if length3 v = 0 then 1 else length3 v)"

text \<open>
  The rotations are computed by the library from the two unit vectors the module hands
  over. An orientation is kept as that call: \<open>SetFromUnitVectors vFrom vTo\<close> is the
  rotation that \<^verbatim>\<open>new THREE.Quaternion().setFromUnitVectors(vFrom, vTo)\<close> returns, the
  one turning the axis \<open>vFrom\<close> onto the direction \<open>vTo\<close>, and
  \<open>SetFromQuaternion q\<close> is \<^verbatim>\<open>new THREE.Euler().setFromQuaternion(q)\<close>.
\<close>

datatype quaternion = SetFromUnitVectors (q_from: vec3) (q_to: vec3)

datatype euler = SetFromQuaternion (e_quat: quaternion)

section \<open>Slot angles\<close>

text \<open>
  \<^verbatim>\<open>
  function angleForIndex(i: number, total = 12) {
    const step = (Math.PI * 2) / total;
    const start = Math.PI / 2; // +Z is front/top
    return start - i * step; // clockwise
  }
  \<close>
  The parameter \<^verbatim>\<open>total\<close> is written \<open>tot\<close>.
\<close>

definition angleForIndex :: "real \<Rightarrow> real \<Rightarrow> real" where
  "angleForIndex i tot =
     (let step = (pi * 2) / tot;
          start = pi / 2
      in start - i * step)"

section \<open>The band\<close>

text \<open>
  The band is an extruded annulus. The shape is the outer circle with the inner circle as
  its hole, each drawn by \<^verbatim>\<open>absarc(x, y, radius, startAngle, endAngle, clockwise)\<close>.
  The geometry is kept as the arguments of \<^verbatim>\<open>new THREE.ExtrudeGeometry(shape, options)\<close>
  followed by the transformations applied to it, in order. The builder has no branch and
  no \<^verbatim>\<open>throw\<close>; its result type has an error side so that this can be stated.
\<close>

datatype path = Absarc real real real real real bool

record shape =
  outline :: path
  holes :: "path list"

record extrude_options =
  eo_depth :: real
  eo_bevelEnabled :: bool
  eo_bevelSegments :: nat
  eo_bevelThickness :: real
  eo_bevelSize :: real
  eo_curveSegments :: nat

datatype geometry_op = Translate real real real | RotateX real | ComputeVertexNormals

record extrude_geometry =
  eg_shape :: shape
  eg_options :: extrude_options
  eg_ops :: "geometry_op list"

record band_mesh =
  mesh_geometry :: extrude_geometry
  mesh_color :: string
  mesh_metalness :: real
  mesh_roughness :: real
  mesh_clearcoat :: real
  mesh_clearcoatRoughness :: real

datatype build_error = InvalidGeometry

definition band_geom :: "real \<Rightarrow> real \<Rightarrow> real \<Rightarrow> extrude_geometry" where
  "band_geom innerR bandWidth bandHeight =
     (let outerR = innerR + bandWidth;
          hole = Absarc 0 0 innerR 0 (pi * 2) True;
          shp = \<lparr>outline = Absarc 0 0 outerR 0 (pi * 2) False, holes = [hole]\<rparr>;
          bevelT = min 0.35 (bandHeight * 0.22);
          bevelS = min 0.6 (bandWidth * 0.12)
      in \<lparr>eg_shape = shp,
          eg_options = \<lparr>eo_depth = bandHeight, eo_bevelEnabled = True, eo_bevelSegments = 3,
                         eo_bevelThickness = bevelT, eo_bevelSize = bevelS, eo_curveSegments = 128\<rparr>,
          eg_ops = [Translate 0 0 (- bandHeight / 2), RotateX (- pi / 2),
                    ComputeVertexNormals]\<rparr>)"

definition Band :: "real \<Rightarrow> real \<Rightarrow> real \<Rightarrow> string \<Rightarrow> build_error + band_mesh" where
  "Band innerR bandWidth bandHeight color =
     Inr \<lparr>mesh_geometry = band_geom innerR bandWidth bandHeight,
          mesh_color = color, mesh_metalness = 1, mesh_roughness = 0.18,
          mesh_clearcoat = 0.5, mesh_clearcoatRoughness = 0.28\<rparr>"

section \<open>Domain data\<close>

text \<open>
  Keys, labels, colours and user text are strings. A glyph is a string of one character
  outside ASCII; drawn text is therefore kept as the list of its code points, and the
  placeholder \<^verbatim>\<open>"?"\<close> is the code point of the question mark.
\<close>

type_synonym codepoints = "nat list"

definition codepoints_of :: "string \<Rightarrow> codepoints" where
  "codepoints_of s = map of_char s"

record zodiac_entry =
  z_key :: string
  z_glyph :: codepoints
  z_label :: string

definition ZODIAC :: "zodiac_entry list" where
  "ZODIAC =
    [\<lparr>z_key = ''aries'', z_glyph = [0x2648], z_label = ''Aries''\<rparr>,
     \<lparr>z_key = ''taurus'', z_glyph = [0x2649], z_label = ''Taurus''\<rparr>,
     \<lparr>z_key = ''gemini'', z_glyph = [0x264A], z_label = ''Gemini''\<rparr>,
     \<lparr>z_key = ''cancer'', z_glyph = [0x264B], z_label = ''Cancer''\<rparr>,
     \<lparr>z_key = ''leo'', z_glyph = [0x264C], z_label = ''Leo''\<rparr>,
     \<lparr>z_key = ''virgo'', z_glyph = [0x264D], z_label = ''Virgo''\<rparr>,
     \<lparr>z_key = ''libra'', z_glyph = [0x264E], z_label = ''Libra''\<rparr>,
     \<lparr>z_key = ''scorpio'', z_glyph = [0x264F], z_label = ''Scorpio''\<rparr>,
     \<lparr>z_key = ''sagittarius'', z_glyph = [0x2650], z_label = ''Sagittarius''\<rparr>,
     \<lparr>z_key = ''capricorn'', z_glyph = [0x2651], z_label = ''Capricorn''\<rparr>,
     \<lparr>z_key = ''aquarius'', z_glyph = [0x2652], z_label = ''Aquarius''\<rparr>,
     \<lparr>z_key = ''pisces'', z_glyph = [0x2653], z_label = ''Pisces''\<rparr>]"

record stone_entry =
  st_key :: string
  st_label :: string
  st_hex :: string
  st_ior :: "real option"

definition STONES :: "stone_entry list" where
  "STONES =
    [\<lparr>st_key = ''diamond'', st_label = ''Diamond'', st_hex = ''#ffffff'', st_ior = Some 2.4\<rparr>,
     \<lparr>st_key = ''ruby'', st_label = ''Ruby'', st_hex = ''#E0115F'', st_ior = Some 1.77\<rparr>,
     \<lparr>st_key = ''sapphire'', st_label = ''Sapphire'', st_hex = ''#0F52BA'', st_ior = Some 1.77\<rparr>,
     \<lparr>st_key = ''emerald'', st_label = ''Emerald'', st_hex = ''#50C878'', st_ior = Some 1.58\<rparr>,
     \<lparr>st_key = ''amethyst'', st_label = ''Amethyst'', st_hex = ''#9966CC'', st_ior = Some 1.54\<rparr>,
     \<lparr>st_key = ''topaz'', st_label = ''Topaz'', st_hex = ''#FFB000'', st_ior = Some 1.61\<rparr>,
     \<lparr>st_key = ''aquamarine'', st_label = ''Aquamarine'', st_hex = ''#7FFFD4'', st_ior = Some 1.58\<rparr>,
     \<lparr>st_key = ''garnet'', st_label = ''Garnet'', st_hex = ''#9B111E'', st_ior = Some 1.79\<rparr>,
     \<lparr>st_key = ''peridot'', st_label = ''Peridot'', st_hex = ''#B4C424'', st_ior = Some 1.65\<rparr>,
     \<lparr>st_key = ''turquoise'', st_label = ''Turquoise'', st_hex = ''#30D5C8'', st_ior = Some 1.61\<rparr>,
     \<lparr>st_key = ''citrine'', st_label = ''Citrine'', st_hex = ''#E4B700'', st_ior = Some 1.55\<rparr>]"

text \<open>
  A slot is an object with a \<^verbatim>\<open>kind\<close> tag and a \<^verbatim>\<open>value\<close> string. The declared type
  of a zodiac slot's value is the union of the twelve keys, but the module casts it away
  (\<^verbatim>\<open>s.value as any\<close>) and looks the key up at run time, so the value stays a string.
\<close>

datatype kind = Zodiac | Stone | Text

record slot =
  kind :: kind
  slot_value :: string

section \<open>Textures for decals\<close>

text \<open>
  Both texture makers draw one string, centred, on a square canvas of 1024 pixels and wrap
  the canvas in a texture. The record keeps what was set on the canvas context and on the
  texture: the fill colour, the font size in pixels and the font families (their names
  without the quotation marks), the string handed to \<^verbatim>\<open>fillText\<close> with its position
  and its maximum width, and the texture's anisotropy. Both makers call
  \<^verbatim>\<open>ctx.fillText(s, size / 2, size / 2)\<close> with three arguments, that is, with no maximum
  width.
\<close>

record texture =
  tex_size :: real
  tex_fillStyle :: string
  tex_textAlign :: string
  tex_textBaseline :: string
  tex_font_px :: real
  tex_font_family :: string
  tex_text :: codepoints
  tex_text_x :: real
  tex_text_y :: real
  tex_maxWidth :: "real option"
  tex_anisotropy :: nat

definition makeZodiacTexture :: "string \<Rightarrow> string \<Rightarrow> texture" where
  "makeZodiacTexture signKey color =
     (let size = 1024;
          glyph = (case find (\<lambda>z. z_key z = signKey) ZODIAC of
                     Some z \<Rightarrow> z_glyph z
                   | None \<Rightarrow> codepoints_of ''?'')
      in \<lparr>tex_size = size, tex_fillStyle = color, tex_textAlign = ''center'',
          tex_textBaseline = ''middle'', tex_font_px = size * 0.58,
          tex_font_family = ''Cormorant Garamond, ui-serif, Georgia, Times New Roman, serif'',
          tex_text = glyph, tex_text_x = size / 2, tex_text_y = size / 2,
          tex_maxWidth = None, tex_anisotropy = 8\<rparr>)"

definition makeTextTexture :: "string \<Rightarrow> string \<Rightarrow> texture" where
  "makeTextTexture txt color =
     (let size = 1024
      in \<lparr>tex_size = size, tex_fillStyle = color, tex_textAlign = ''center'',
          tex_textBaseline = ''middle'', tex_font_px = size * 0.45,
          tex_font_family = ''Inter, ui-sans-serif, -apple-system, Segoe UI, Arial'',
          tex_text = codepoints_of txt, tex_text_x = size / 2, tex_text_y = size / 2,
          tex_maxWidth = None, tex_anisotropy = 8\<rparr>)"



section \<open>Decal marks\<close>

text \<open>
  \<^verbatim>\<open>slots[i]\<close> is \<^verbatim>\<open>undefined\<close> at an index the array does not have; the loops test
  it with \<^verbatim>\<open>!s\<close>. The entries of a \<^verbatim>\<open>Slot[]\<close> are objects, so an entry is absent
  exactly where the index is out of the array.
\<close>

definition slot_at :: "slot list \<Rightarrow> nat \<Rightarrow> slot option" where
  "slot_at slots i = (if i < length slots then Some (slots ! i) else None)"

text \<open>
  The parameter \<^verbatim>\<open>size\<close> of both components is written \<open>sz\<close>.
  A decal is the mesh element pushed by the loop: its key, the arguments of
  \<^verbatim>\<open>new DecalGeometry(mesh, pos, euler, new THREE.Vector3(size, size, depth))\<close> and the
  texture of its material.
\<close>

record decal =
  d_key :: nat
  d_target :: band_mesh
  d_position :: vec3
  d_orientation :: euler
  d_size :: vec3
  d_map :: texture

text \<open>
  The body of the loop of \<^verbatim>\<open>DecalMarks\<close> is in two parts. \<open>decal_at\<close> is the element
  built for index \<open>i\<close> and slot \<open>s\<close> once the guard has let the slot through;
  \<open>decal_step\<close> is the whole body: it leaves the list as it is (\<^verbatim>\<open>continue\<close>) or
  appends that element (\<^verbatim>\<open>items.push\<close>).
\<close>

definition decal_at ::
  "band_mesh \<Rightarrow> real \<Rightarrow> real \<Rightarrow> real \<Rightarrow> real \<Rightarrow> bool \<Rightarrow> string \<Rightarrow> nat \<Rightarrow> slot \<Rightarrow> decal" where
  "decal_at mesh innerR outerR sz depth inside markColor i s =
     (let a = angleForIndex (real i) 12;
          radius = (if inside then innerR + 0.05 else outerR - 0.05);
          pos = Vector3 (cos a * radius) 0 (sin a * radius);
          normal = normalize3 (multiplyScalar (Vector3 (cos a) 0 (sin a))
                                (if inside then - 1 else 1));
          quat = SetFromUnitVectors (Vector3 0 0 1) normal;
          eul = SetFromQuaternion quat;
          tex = (if kind s = Zodiac then makeZodiacTexture (slot_value s) markColor
                 else makeTextTexture (slot_value s) markColor)
      in \<lparr>d_key = i, d_target = mesh, d_position = pos, d_orientation = eul,
          d_size = Vector3 sz sz depth, d_map = tex\<rparr>)"

definition decal_step ::
  "band_mesh \<Rightarrow> real \<Rightarrow> real \<Rightarrow> real \<Rightarrow> real \<Rightarrow> slot list \<Rightarrow> bool \<Rightarrow> string \<Rightarrow>
   nat \<Rightarrow> decal list \<Rightarrow> decal list" where
  "decal_step mesh innerR outerR sz depth slots inside markColor i items =
     (case slot_at slots i of
        None \<Rightarrow> items
      | Some s \<Rightarrow>
          if kind s = Stone then items
          else items @ [decal_at mesh innerR outerR sz depth inside markColor i s])"

text \<open>
  \<^verbatim>\<open>targetRef.current\<close> is the band's mesh, or \<^verbatim>\<open>null\<close> as long as the mesh is not
  mounted; then the function returns the empty list before the loop.
\<close>

definition DecalMarks ::
  "band_mesh option \<Rightarrow> real \<Rightarrow> real \<Rightarrow> real \<Rightarrow> slot list \<Rightarrow> bool \<Rightarrow> string \<Rightarrow> decal list" where
  "DecalMarks targetRef innerR outerR sz slots inside markColor =
     (case targetRef of
        None \<Rightarrow> []
      | Some mesh \<Rightarrow>
          let depth = max 0.6 (sz * 0.5)
          in fold (decal_step mesh innerR outerR sz depth slots inside markColor)
                  [0..<12] [])"

section \<open>Gems\<close>

text \<open>
  A gem is the group pushed by the loop of \<^verbatim>\<open>Gems\<close>: its index (the key is
  \<^verbatim>\<open>gem-i\<close>), position and rotation, the radius of the icosahedron, the colour, the
  index of refraction and the thickness of its material, and the seat below it (its
  position and the arguments of the cylinder).
\<close>

record gem =
  g_key :: nat
  g_position :: vec3
  g_quaternion :: quaternion
  g_radius :: real
  g_color :: string
  g_ior :: real
  g_thickness :: real
  g_seat_position :: vec3
  g_seat_radiusTop :: real
  g_seat_radiusBottom :: real
  g_seat_height :: real

text \<open>
  As for the decals, \<open>gem_at\<close> is the element built for index \<open>i\<close> and slot \<open>s\<close> after
  the guard, and \<open>gem_step\<close> is the whole body of the loop.
\<close>

definition gem_at :: "real \<Rightarrow> real \<Rightarrow> real \<Rightarrow> real \<Rightarrow> bool \<Rightarrow> nat \<Rightarrow> slot \<Rightarrow> gem" where
  "gem_at innerR outerR height sz inside i s =
     (let a = angleForIndex (real i) 12;
          normal = normalize3 (multiplyScalar (Vector3 (cos a) 0 (sin a))
                                (if inside then - 1 else 1));
          baseR = (if inside then innerR else outerR);
          gemSize = max 0.8 (sz * 0.55);
          offset = gemSize * 0.6;
          pos = multiplyScalar normal (baseR + (if inside then - offset else offset));
          quat = SetFromUnitVectors (Vector3 0 1 0) normal;
          stone = (case find (\<lambda>st. st_key st = slot_value s) STONES of
                     Some st \<Rightarrow> st
                   | None \<Rightarrow> STONES ! 0);
          ior = (case st_ior stone of Some n \<Rightarrow> n | None \<Rightarrow> 1.6)
      in \<lparr>g_key = i, g_position = pos, g_quaternion = quat, g_radius = gemSize,
          g_color = st_hex stone, g_ior = ior, g_thickness = gemSize * 0.9,
          g_seat_position = Vector3 0 (- gemSize * 0.52) 0,
          g_seat_radiusTop = gemSize * 0.58,
          g_seat_radiusBottom = gemSize * 0.62,
          g_seat_height = min 0.5 (height * 0.3)\<rparr>)"

definition gem_step ::
  "real \<Rightarrow> real \<Rightarrow> real \<Rightarrow> real \<Rightarrow> slot list \<Rightarrow> bool \<Rightarrow> nat \<Rightarrow> gem list \<Rightarrow> gem list" where
  "gem_step innerR outerR height sz slots inside i arr =
     (case slot_at slots i of
        None \<Rightarrow> arr
      | Some s \<Rightarrow>
          if kind s \<noteq> Stone then arr
          else arr @ [gem_at innerR outerR height sz inside i s])"

definition Gems :: "real \<Rightarrow> real \<Rightarrow> real \<Rightarrow> real \<Rightarrow> slot list \<Rightarrow> bool \<Rightarrow> gem list" where
  "Gems innerR outerR height sz slots inside =
     fold (gem_step innerR outerR height sz slots inside) [0..<12] []"

section \<open>The application: default slots and diagnostics\<close>

text \<open>
  \<^verbatim>\<open>Array.from({ length: 12 }, (_, i) => ({ kind: "zodiac", value: ZODIAC[i % 12].key }))\<close>
\<close>

definition initialSlots :: "slot list" where
  "initialSlots = map (\<lambda>i. \<lparr>kind = Zodiac, slot_value = z_key (ZODIAC ! (i mod 12))\<rparr>) [0..<12]"

record diagnostics =
  twelveSlots :: bool
  geometryValid :: bool
  slotsValid :: bool

text \<open>
  The diagnostics of \<^verbatim>\<open>App\<close>, as a function of the values they read: the slots, the inner
  diameter, the two derived radii and the band height. \<^verbatim>\<open>every\<close> is \<open>list_all\<close> and
  \<^verbatim>\<open>some\<close> is \<open>list_ex\<close>.

  \<^verbatim>\<open>App\<close> derives \<^verbatim>\<open>innerR = innerDiameter / 2\<close> and \<^verbatim>\<open>outerR = innerR + bandWidth\<close>
  before the diagnostics, in doubles. The sum is rounded, so a positive width far below
  the spacing of the doubles at \<^verbatim>\<open>innerR\<close> leaves \<^verbatim>\<open>outerR\<close> equal to \<^verbatim>\<open>innerR\<close>. The
  diagnostics do no arithmetic of their own: they compare the radii they are given, and
  these are arguments here.
\<close>

definition tests :: "slot list \<Rightarrow> real \<Rightarrow> real \<Rightarrow> real \<Rightarrow> real \<Rightarrow> diagnostics" where
  "tests slots innerDiameter innerR outerR bandHeight =
     \<lparr>twelveSlots = (length slots = 12),
      geometryValid = (outerR > innerR \<and> innerDiameter > 0 \<and> bandHeight > 0),
      slotsValid =
        list_all (\<lambda>s. (kind s = Zodiac \<and> list_ex (\<lambda>z. z_key z = slot_value s) ZODIAC)
                     \<or> (kind s = Stone \<and> list_ex (\<lambda>st. st_key st = slot_value s) STONES)
                     \<or> kind s = Text)
                 slots\<rparr>"

section \<open>Units and example configurations\<close>

text \<open>
  The specification speaks of angles in degrees; \<open>deg d\<close> is the angle of \<open>d\<close> degrees in
  radians.
\<close>

definition deg :: "real \<Rightarrow> real" where
  "deg d = d * pi / 180"

text \<open>
  Configurations and a mesh used as concrete inputs below: the band of the default
  parameters (inner diameter 18, width 3, height 2.2, gold), the default slots with a
  seven-letter text in slot 0, the default slots with an unknown stone key in slot 3, and a
  configuration of thirteen slots whose last entry, at index 12, is a stone.
\<close>

definition studio_mesh :: band_mesh where
  "studio_mesh = projr (Band 9 3 2.2 ''#d4af37'')"


definition opal_at_3 :: "slot list" where
  "opal_at_3 = initialSlots [3 := \<lparr>kind = Stone, slot_value = ''opal''\<rparr>]"

definition thirteen_slots :: "slot list" where
  "thirteen_slots =
     [\<lparr>kind = Stone, slot_value = ''ruby''\<rparr>, \<lparr>kind = Text, slot_value = ''AB''\<rparr>]
     @ replicate 10 \<lparr>kind = Zodiac, slot_value = ''leo''\<rparr>
     @ [\<lparr>kind = Stone, slot_value = ''topaz''\<rparr>]"

section \<open>The loops as lists\<close>

text \<open>
  Each loop runs over the indices 0 to 11 and appends at most one element per index, so
  its result is the list of the elements built at the indices that pass the guard, in order.
\<close>

lemma upt_12: "[0..<12] = [0, 1, 2, 3, 4, 5, 6, 7, 8, 9, 10, 11::nat]"
  by code_simp

lemma fold_decal_step:
  "fold (decal_step mesh iR oR sz dp slots inside c) xs acc =
   acc @ map (\<lambda>i. decal_at mesh iR oR sz dp inside c i (slots ! i))
             (filter (\<lambda>i. i < length slots \<and> kind (slots ! i) \<noteq> Stone) xs)"
  by (induction xs arbitrary: acc) (simp_all add: decal_step_def slot_at_def)

lemma fold_gem_step:
  "fold (gem_step iR oR h sz slots inside) xs acc =
   acc @ map (\<lambda>i. gem_at iR oR h sz inside i (slots ! i))
             (filter (\<lambda>i. i < length slots \<and> kind (slots ! i) = Stone) xs)"
  by (induction xs arbitrary: acc) (simp_all add: gem_step_def slot_at_def)

lemma DecalMarks_Some:
  "DecalMarks (Some mesh) iR oR sz slots inside c =
   map (\<lambda>i. decal_at mesh iR oR sz (max 0.6 (sz * 0.5)) inside c i (slots ! i))
       (filter (\<lambda>i. i < length slots \<and> kind (slots ! i) \<noteq> Stone) [0..<12])"
  by (simp add: DecalMarks_def Let_def fold_decal_step)

lemma DecalMarks_None: "DecalMarks None iR oR sz slots inside c = []"
  by (simp add: DecalMarks_def)

lemma Gems_eq:
  "Gems iR oR h sz slots inside =
   map (\<lambda>i. gem_at iR oR h sz inside i (slots ! i))
       (filter (\<lambda>i. i < length slots \<and> kind (slots ! i) = Stone) [0..<12])"
  by (simp add: Gems_def fold_gem_step)

lemma d_key_decal_at: "d_key (decal_at mesh iR oR sz dp inside c i s) = i"
  by (simp add: decal_at_def Let_def)

lemma g_key_gem_at: "g_key (gem_at iR oR h sz inside i s) = i"
  by (simp add: gem_at_def Let_def)

lemma map_d_key_DecalMarks:
  "map d_key (DecalMarks (Some mesh) iR oR sz slots inside c) =
   filter (\<lambda>i. i < length slots \<and> kind (slots ! i) \<noteq> Stone) [0..<12]"
  by (simp add: DecalMarks_Some o_def d_key_decal_at)

lemma map_g_key_Gems:
  "map g_key (Gems iR oR h sz slots inside) =
   filter (\<lambda>i. i < length slots \<and> kind (slots ! i) = Stone) [0..<12]"
  by (simp add: Gems_eq o_def g_key_gem_at)

lemma in_DecalMarks_iff:
  "d \<in> set (DecalMarks (Some mesh) iR oR sz slots inside c) \<longleftrightarrow>
   (\<exists>i<12. i < length slots \<and> kind (slots ! i) \<noteq> Stone \<and>
      d = decal_at mesh iR oR sz (max 0.6 (sz * 0.5)) inside c i (slots ! i))"
  by (auto simp: DecalMarks_Some)

lemma in_Gems_iff:
  "g \<in> set (Gems iR oR h sz slots inside) \<longleftrightarrow>
   (\<exists>i<12. i < length slots \<and> kind (slots ! i) = Stone \<and>
      g = gem_at iR oR h sz inside i (slots ! i))"
  by (auto simp: Gems_eq)

lemma DecalMarks_single:
  "kind s \<noteq> Stone \<Longrightarrow>
   DecalMarks (Some m) iR oR sz [s] inside c = [decal_at m iR oR sz (max 0.6 (sz * 0.5)) inside c 0 s]"
  by (simp add: DecalMarks_Some upt_12)

lemma Gems_single:
  "kind s = Stone \<Longrightarrow> Gems iR oR h sz [s] inside = [gem_at iR oR h sz inside 0 s]"
  by (simp add: Gems_eq upt_12)

lemma DecalMarks_take:
  "DecalMarks targetRef iR oR sz (take 12 slots) inside c = DecalMarks targetRef iR oR sz slots inside c"
proof (cases targetRef)
  case None
  then show ?thesis by (simp add: DecalMarks_None)
next
  case (Some mesh)
  have f: "filter (\<lambda>i. i < length (take 12 slots) \<and> kind (take 12 slots ! i) \<noteq> Stone) [0..<12]
         = filter (\<lambda>i. i < length slots \<and> kind (slots ! i) \<noteq> Stone) [0..<12]"
    by (intro filter_cong) auto
  show ?thesis
    unfolding Some DecalMarks_Some f
    by (intro map_cong) auto
qed

lemma Gems_take:
  "Gems iR oR h sz (take 12 slots) inside = Gems iR oR h sz slots inside"
proof -
  have f: "filter (\<lambda>i. i < length (take 12 slots) \<and> kind (take 12 slots ! i) = Stone) [0..<12]
         = filter (\<lambda>i. i < length slots \<and> kind (slots ! i) = Stone) [0..<12]"
    by (intro filter_cong) auto
  show ?thesis
    unfolding Gems_eq f
    by (intro map_cong) auto
qed

lemma count_by_index:
  "length (filter (\<lambda>i. P (xs ! i)) [0..<length xs]) = length (filter P xs)"
proof -
  have "filter P xs = filter P (map ((!) xs) [0..<length xs])"
    by (simp add: map_nth)
  also have "\<dots> = map ((!) xs) (filter (\<lambda>i. P (xs ! i)) [0..<length xs])"
    by (simp add: filter_map o_def)
  finally show ?thesis by simp
qed

section \<open>Directions and placement\<close>

lemma angle_eq: "angleForIndex i 12 = pi / 2 - i * (pi / 6)"
  by (simp add: angleForIndex_def Let_def)

lemma angle_eq_0: "angleForIndex 0 12 = pi / 2"
  by (simp add: angleForIndex_def)

lemma angle_diff_not_turn:
  fixes i j :: nat
  assumes "i < 12" "j < 12" "i \<noteq> j"
  shows "angleForIndex (real i) 12 - angleForIndex (real j) 12 \<noteq> 2 * pi * real_of_int k"
proof
  assume eq: "angleForIndex (real i) 12 - angleForIndex (real j) 12 = 2 * pi * real_of_int k"
  have "(real j - real i) * (pi / 6) = 2 * pi * real_of_int k"
    using eq by (simp add: angle_eq algebra_simps)
  then have "pi * (real j - real i) = pi * (12 * real_of_int k)"
    by (simp add: algebra_simps)
  then have "real j - real i = 12 * real_of_int k"
    using pi_neq_zero mult_cancel_left by blast
  then have "real_of_int (int j - int i) = real_of_int (12 * k)"
    by simp
  then have "int j - int i = 12 * k"
    using of_int_eq_iff by blast
  with assms show False by presburger
qed

lemma normalize_direction:
  "normalize3 (Vector3 (cos a) 0 (sin a)) = Vector3 (cos a) 0 (sin a)"
  "normalize3 (Vector3 (- cos a) 0 (- sin a)) = Vector3 (- cos a) 0 (- sin a)"
proof -
  have "cos a * cos a + sin a * sin a = 1"
    using sin_cos_squared_add3 [of a] by (simp add: add.commute)
  then show "normalize3 (Vector3 (cos a) 0 (sin a)) = Vector3 (cos a) 0 (sin a)"
    "normalize3 (Vector3 (- cos a) 0 (- sin a)) = Vector3 (- cos a) 0 (- sin a)"
    by (simp_all add: normalize3_def)
qed

lemma decal_at_placement:
  "d_position (decal_at mesh iR oR sz dp inside c i s) =
     multiplyScalar (Vector3 (cos (angleForIndex (real i) 12)) 0 (sin (angleForIndex (real i) 12)))
                    (if inside then iR + 0.05 else oR - 0.05)"
  "d_orientation (decal_at mesh iR oR sz dp inside c i s) =
     SetFromQuaternion (SetFromUnitVectors (Vector3 0 0 1)
       (multiplyScalar (Vector3 (cos (angleForIndex (real i) 12)) 0 (sin (angleForIndex (real i) 12)))
                       (if inside then - 1 else 1)))"
  by (cases inside; simp add: decal_at_def Let_def normalize_direction)+

lemma gem_at_position:
  "g_position (gem_at iR oR h sz inside i s) =
     multiplyScalar (Vector3 (cos (angleForIndex (real i) 12)) 0 (sin (angleForIndex (real i) 12)))
        (if inside then - (iR - 0.6 * max 0.8 (sz * 0.55)) else oR + 0.6 * max 0.8 (sz * 0.55))"
  by (cases inside) (simp_all add: gem_at_def Let_def normalize_direction algebra_simps)

section \<open>The diagnostics, the catalogs and the default slots\<close>

lemma twelveSlots_iff:
  "twelveSlots (tests slots innerDiameter innerR outerR bandHeight) \<longleftrightarrow> length slots = 12"
  by (simp add: tests_def)

lemma geometryValid_iff:
  "geometryValid (tests slots innerDiameter innerR outerR bandHeight)
     \<longleftrightarrow> innerR < outerR \<and> 0 < innerDiameter \<and> 0 < bandHeight"
  by (simp add: tests_def)

lemma slotsValid_iff:
  "slotsValid (tests slots innerDiameter innerR outerR bandHeight) \<longleftrightarrow>
     (\<forall>s \<in> set slots. (kind s = Zodiac \<and> (\<exists>z \<in> set ZODIAC. z_key z = slot_value s))
                      \<or> (kind s = Stone \<and> (\<exists>st \<in> set STONES. st_key st = slot_value s))
                      \<or> kind s = Text)"
  by (simp add: tests_def list_all_iff list_ex_iff)



lemma length_initialSlots: "length initialSlots = 12"
  by (simp add: initialSlots_def)

lemma makeZodiacTexture_unknown:
  "signKey \<notin> set (map z_key ZODIAC) \<Longrightarrow>
   tex_text (makeZodiacTexture signKey color) = codepoints_of ''?''"
proof -
  assume "signKey \<notin> set (map z_key ZODIAC)"
  then have "find (\<lambda>z. z_key z = signKey) ZODIAC = None"
    by (force simp: find_None_iff)
  then show ?thesis by (simp add: makeZodiacTexture_def Let_def)
qed

lemma gem_at_unknown:
  "slot_value s \<notin> set (map st_key STONES) \<Longrightarrow>
   g_color (gem_at iR oR h sz inside i s) = ''#ffffff'' \<and> g_ior (gem_at iR oR h sz inside i s) = 2.4"
proof -
  assume "slot_value s \<notin> set (map st_key STONES)"
  then have "find (\<lambda>st. st_key st = slot_value s) STONES = None"
    by (force simp: find_None_iff)
  then show ?thesis by (simp add: gem_at_def Let_def) (simp add: STONES_def)
qed

lemma bevel_bounds:
  fixes h w :: real
  assumes "0 < h" "0 < w"
  shows "min 0.35 (h * 0.22) \<le> 0.35 * h" "min 0.6 (w * 0.12) \<le> 0.6 * w"
  using assms by (auto simp: min_def)

section \<open>The claims\<close>

text \<open>
  C1. For every index \<open>i\<close> from 0 to 11, \<open>angleForIndex i 12\<close> is the reference angle of
  90 degrees (\<open>pi / 2\<close>, front/top) minus \<open>i\<close> times 30 degrees (\<open>i\<close> times \<open>2 pi / 12\<close>):
  index 0 is at \<open>pi / 2\<close>, the angle decreases from each index to the next (clockwise), and
  the angles of two different indices never differ by a whole number of turns of 360
  degrees, so the twelve angles are pairwise distinct modulo 360 degrees.
\<close>

theorem angleForIndex_twelve:
  fixes i j :: nat
  assumes "i < 12" and "j < 12"
  shows "angleForIndex 0 12 = pi / 2
       \<and> angleForIndex 0 12 = deg 90
       \<and> angleForIndex (real i) 12 = pi / 2 - real i * (2 * pi / 12)
       \<and> angleForIndex (real i) 12 = deg 90 - real i * deg 30
       \<and> (i < j \<longrightarrow> angleForIndex (real j) 12 < angleForIndex (real i) 12)
       \<and> (i \<noteq> j \<longrightarrow> (\<forall>k::int. angleForIndex (real i) 12 - angleForIndex (real j) 12
                                  \<noteq> deg 360 * real_of_int k))"
proof -
  have d: "deg 360 = 2 * pi" by (simp add: deg_def)
  have a: "angleForIndex 0 12 = pi / 2" by (simp add: angle_eq)
  have b: "angleForIndex (real i) 12 = pi / 2 - real i * (2 * pi / 12)" by (simp add: angle_eq)
  have c: "angleForIndex (real i) 12 = deg 90 - real i * deg 30" by (simp add: angle_eq deg_def)
  have e: "i < j \<longrightarrow> angleForIndex (real j) 12 < angleForIndex (real i) 12"
    by (simp add: angle_eq)
  have f: "i \<noteq> j \<longrightarrow> (\<forall>k::int. angleForIndex (real i) 12 - angleForIndex (real j) 12
                                  \<noteq> deg 360 * real_of_int k)"
    using angle_diff_not_turn [OF assms] by (simp add: d)
  from a b c e f show ?thesis by (simp add: deg_def)
qed

theorem angleForIndex_twelve_witness:
  "(3::nat) < 12 \<and> (9::nat) < 12
   \<and> angleForIndex (real (3::nat)) 12 = deg 90 - real (3::nat) * deg 30
   \<and> angleForIndex (real (9::nat)) 12 < angleForIndex (real (3::nat)) 12
   \<and> angleForIndex (real (3::nat)) 12 - angleForIndex (real (9::nat)) 12 \<noteq> deg 360 * real_of_int 1"
proof -
  have a: "(3::nat) < 12" and b: "(9::nat) < 12" and c: "(3::nat) < 9" and d: "(3::nat) \<noteq> 9"
    by simp_all
  note t = angleForIndex_twelve [OF a b]
  from t have t4: "angleForIndex (real (3::nat)) 12 = deg 90 - real (3::nat) * deg 30"
    by blast
  from t c have t5: "angleForIndex (real (9::nat)) 12 < angleForIndex (real (3::nat)) 12"
    by blast
  from t d have t6: "angleForIndex (real (3::nat)) 12 - angleForIndex (real (9::nat)) 12
                       \<noteq> deg 360 * real_of_int 1"
    by blast
  from a b t4 t5 t6 show ?thesis by blast
qed

text \<open>
  C2, as amended. The band builder has no failing path: for every inner diameter, width
  and height, also with a width or height that is zero or negative, it returns a mesh
  whose shape is the circle of radius inner radius plus width with the circle of the inner
  radius as hole, extruded by the height. A width or height that is not positive is
  reported by the diagnostics only: \<open>geometryValid\<close> is then false, for the radii that
  \<^verbatim>\<open>App\<close> derives, \<open>innerDiameter / 2\<close> and \<open>innerDiameter / 2 + bandWidth\<close>.
\<close>

theorem Band_always_builds:
  "\<not> isl (Band (innerDiameter / 2) bandWidth bandHeight color)
   \<and> eg_shape (mesh_geometry (projr (Band (innerDiameter / 2) bandWidth bandHeight color)))
       = \<lparr>outline = Absarc 0 0 (innerDiameter / 2 + bandWidth) 0 (pi * 2) False,
          holes = [Absarc 0 0 (innerDiameter / 2) 0 (pi * 2) True]\<rparr>
   \<and> eo_depth (eg_options (mesh_geometry (projr (Band (innerDiameter / 2) bandWidth bandHeight color))))
       = bandHeight
   \<and> (bandWidth \<le> 0 \<or> bandHeight \<le> 0 \<longrightarrow>
        \<not> geometryValid (tests slots innerDiameter (innerDiameter / 2)
                               (innerDiameter / 2 + bandWidth) bandHeight))"
  by (auto simp: Band_def band_geom_def Let_def geometryValid_iff)

theorem Band_always_builds_witness:
  "(0::real) \<le> 0 \<and> \<not> isl (Band (18 / 2) 0 2.2 ''#d4af37'')
   \<and> eo_depth (eg_options (mesh_geometry (projr (Band (18 / 2) 0 2.2 ''#d4af37'')))) = 2.2
   \<and> \<not> geometryValid (tests initialSlots 18 (18 / 2) (18 / 2 + 0) 2.2)"
  using Band_always_builds [of 18 0 "2.2" "''#d4af37''" initialSlots] by simp

text \<open>
  C2 as stated fails: for inner radius 9, width 0 and height 2.2 the builder reports no
  \<open>InvalidGeometry\<close>; it returns a mesh whose outer circle and hole have the same radius.
\<close>

theorem Band_refuses_counterexample:
  "(0::real) \<le> 0 \<and> \<not> isl (Band 9 0 2.2 ''#d4af37'')
   \<and> Band 9 0 2.2 ''#d4af37'' \<noteq> Inl InvalidGeometry
   \<and> eg_shape (mesh_geometry (projr (Band 9 0 2.2 ''#d4af37'')))
       = \<lparr>outline = Absarc 0 0 9 0 (pi * 2) False, holes = [Absarc 0 0 9 0 (pi * 2) True]\<rparr>"
  by (simp add: Band_def band_geom_def Let_def)

text \<open>
  C3, at an input where the code departs from it. In inside mode the gem of slot 0, with
  inner radius 9 and mark size 2.6 (gem size 1.43), is placed at \<open>(0, 0, - 8.142)\<close>: the
  inverted normal is scaled by inner radius minus 0.6 times the gem size, so the centre is
  on the ray opposite to the slot's direction. The point that C3 names, on the ray of the
  slot's angle at that radius, is \<open>(0, 0, 8.142)\<close>. (\<open>gem_at_position\<close> above gives the
  centre for every index and both modes; in outside mode it is the point C3 names.)
\<close>

theorem Gems_inside_opposite_side:
  "map g_position (Gems 9 12 2.2 2.6 [\<lparr>kind = Stone, slot_value = ''ruby''\<rparr>] True)
     = [Vector3 0 0 (- 8.142)]
   \<and> multiplyScalar (Vector3 (cos (angleForIndex 0 12)) 0 (sin (angleForIndex 0 12)))
                    (9 - 0.6 * max 0.8 (2.6 * 0.55))
     = Vector3 0 0 8.142"
  by (simp add: Gems_eq upt_12 gem_at_position angle_eq_0)




text \<open>
  C5. For every zodiac or text slot at an index \<open>i\<close> below 12, a decal with key \<open>i\<close> is
  produced once the target mesh is mounted, and every decal produced, with
  \<open>a = angleForIndex i 12\<close> for its key \<open>i\<close>, is anchored at the direction
  \<open>(cos a, 0, sin a)\<close> scaled to inner radius plus 0.05 in inside placement and to outer
  radius minus 0.05 in outside placement, and is oriented by the rotation that turns the
  forward axis \<open>(0, 0, 1)\<close> onto the normal \<open>(cos a, 0, sin a)\<close>, inverted in inside
  placement.
\<close>

theorem DecalMarks_anchor:
  "(i < 12 \<and> i < length slots \<and> kind (slots ! i) \<noteq> Stone \<longrightarrow>
      (\<exists>d \<in> set (DecalMarks (Some mesh) innerR outerR sz slots inside markColor). d_key d = i))
   \<and> (\<forall>d \<in> set (DecalMarks targetRef innerR outerR sz slots inside markColor).
        d_position d =
          multiplyScalar (Vector3 (cos (angleForIndex (real (d_key d)) 12)) 0
                                  (sin (angleForIndex (real (d_key d)) 12)))
                         (if inside then innerR + 0.05 else outerR - 0.05)
      \<and> d_orientation d =
          SetFromQuaternion (SetFromUnitVectors (Vector3 0 0 1)
            (multiplyScalar (Vector3 (cos (angleForIndex (real (d_key d)) 12)) 0
                                     (sin (angleForIndex (real (d_key d)) 12)))
                            (if inside then - 1 else 1))))"
proof (intro conjI impI ballI)
  assume "i < 12 \<and> i < length slots \<and> kind (slots ! i) \<noteq> Stone"
  then have "i \<in> set (map d_key (DecalMarks (Some mesh) innerR outerR sz slots inside markColor))"
    by (simp add: map_d_key_DecalMarks)
  then show "\<exists>d \<in> set (DecalMarks (Some mesh) innerR outerR sz slots inside markColor). d_key d = i"
    by auto
next
  fix d assume d: "d \<in> set (DecalMarks targetRef innerR outerR sz slots inside markColor)"
  then obtain mesh' where t: "targetRef = Some mesh'"
    by (cases targetRef) (simp_all add: DecalMarks_None)
  from d obtain j where j: "d = decal_at mesh' innerR outerR sz (max 0.6 (sz * 0.5)) inside markColor j (slots ! j)"
    unfolding t in_DecalMarks_iff by blast
  show "d_position d =
          multiplyScalar (Vector3 (cos (angleForIndex (real (d_key d)) 12)) 0
                                  (sin (angleForIndex (real (d_key d)) 12)))
                         (if inside then innerR + 0.05 else outerR - 0.05)"
    unfolding j decal_at_placement d_key_decal_at ..
  show "d_orientation d =
          SetFromQuaternion (SetFromUnitVectors (Vector3 0 0 1)
            (multiplyScalar (Vector3 (cos (angleForIndex (real (d_key d)) 12)) 0
                                     (sin (angleForIndex (real (d_key d)) 12)))
                            (if inside then - 1 else 1)))"
    unfolding j decal_at_placement d_key_decal_at ..
qed

theorem DecalMarks_anchor_witness:
  "(0::nat) < 12 \<and> 0 < length [\<lparr>kind = Text, slot_value = ''AB''\<rparr>]
   \<and> kind ([\<lparr>kind = Text, slot_value = ''AB''\<rparr>] ! 0) \<noteq> Stone
   \<and> map d_key (DecalMarks (Some studio_mesh) 9 12 2.6 [\<lparr>kind = Text, slot_value = ''AB''\<rparr>]
                  False ''#3b3b3b'') = [0]
   \<and> map d_position (DecalMarks (Some studio_mesh) 9 12 2.6 [\<lparr>kind = Text, slot_value = ''AB''\<rparr>]
                  False ''#3b3b3b'') = [Vector3 0 0 11.95]
   \<and> map d_orientation (DecalMarks (Some studio_mesh) 9 12 2.6 [\<lparr>kind = Text, slot_value = ''AB''\<rparr>]
                  True ''#3b3b3b'')
       = [SetFromQuaternion (SetFromUnitVectors (Vector3 0 0 1) (Vector3 0 0 (- 1)))]"
  using DecalMarks_anchor [of 0 "[\<lparr>kind = Text, slot_value = ''AB''\<rparr>]" studio_mesh 9 12 "2.6" False
                              "''#3b3b3b''" "Some studio_mesh"]
        DecalMarks_anchor [of 0 "[\<lparr>kind = Text, slot_value = ''AB''\<rparr>]" studio_mesh 9 12 "2.6" True
                              "''#3b3b3b''" "Some studio_mesh"]
  by (simp add: DecalMarks_single d_key_decal_at angle_eq_0)

text \<open>
  C6, as amended. For every configuration of twelve slots and a mounted target mesh, the
  decals produced are exactly one per zodiac or text slot, in the order of the indices, and
  none for a stone slot; their number is the number of slots that are not stones, so it
  is 12 when no slot is a stone, as in the configuration of the twelve zodiac signs. As
  long as the target mesh is not mounted, no decal is produced.
\<close>

theorem DecalMarks_one_patch_per_mark:
  assumes "length slots = 12"
  shows "map d_key (DecalMarks (Some mesh) innerR outerR sz slots inside markColor)
           = filter (\<lambda>i. kind (slots ! i) \<noteq> Stone) [0..<12]
       \<and> length (DecalMarks (Some mesh) innerR outerR sz slots inside markColor)
           = length (filter (\<lambda>s. kind s \<noteq> Stone) slots)
       \<and> ((\<forall>s \<in> set slots. kind s \<noteq> Stone) \<longrightarrow>
            length (DecalMarks (Some mesh) innerR outerR sz slots inside markColor) = 12)
       \<and> DecalMarks None innerR outerR sz slots inside markColor = []"
proof -
  have f: "filter (\<lambda>i. i < length slots \<and> kind (slots ! i) \<noteq> Stone) [0..<12]
         = filter (\<lambda>i. kind (slots ! i) \<noteq> Stone) [0..<12]"
    using assms by (intro filter_cong) auto
  have k: "map d_key (DecalMarks (Some mesh) innerR outerR sz slots inside markColor)
           = filter (\<lambda>i. kind (slots ! i) \<noteq> Stone) [0..<12]"
    by (simp only: map_d_key_DecalMarks f)
  have "length (DecalMarks (Some mesh) innerR outerR sz slots inside markColor)
           = length (filter (\<lambda>i. kind (slots ! i) \<noteq> Stone) [0..<length slots])"
    using arg_cong [OF k, of length] by (simp add: assms)
  also have "\<dots> = length (filter (\<lambda>s. kind s \<noteq> Stone) slots)"
    by (rule count_by_index)
  finally have l: "length (DecalMarks (Some mesh) innerR outerR sz slots inside markColor)
           = length (filter (\<lambda>s. kind s \<noteq> Stone) slots)" .
  have a: "(\<forall>s \<in> set slots. kind s \<noteq> Stone) \<longrightarrow>
            length (DecalMarks (Some mesh) innerR outerR sz slots inside markColor) = 12"
    using l assms by simp
  from k l a show ?thesis by (simp add: DecalMarks_None)
qed

theorem DecalMarks_one_patch_per_mark_witness:
  "length initialSlots = 12
   \<and> map d_key (DecalMarks (Some studio_mesh) 9 12 2.6 initialSlots False ''#3b3b3b'')
       = [0, 1, 2, 3, 4, 5, 6, 7, 8, 9, 10, 11]
   \<and> length (DecalMarks (Some studio_mesh) 9 12 2.6 initialSlots False ''#3b3b3b'') = 12
   \<and> map d_key (DecalMarks (Some studio_mesh) 9 12 2.6 opal_at_3 False ''#3b3b3b'')
       = [0, 1, 2, 4, 5, 6, 7, 8, 9, 10, 11]"
proof -
  have i: "initialSlots = map (\<lambda>k. \<lparr>kind = Zodiac, slot_value = k\<rparr>) (map z_key ZODIAC)"
    by (simp add: initialSlots_def upt_12 ZODIAC_def)
  have z: "\<forall>s \<in> set initialSlots. kind s \<noteq> Stone" by (simp add: i)
  have o: "length opal_at_3 = 12" by (simp add: opal_at_3_def length_initialSlots)
  have k: "filter (\<lambda>i. kind (initialSlots ! i) \<noteq> Stone) [0..<12] = [0, 1, 2, 3, 4, 5, 6, 7, 8, 9, 10, 11]"
    by (simp add: i upt_12 ZODIAC_def)
  have k': "filter (\<lambda>i. kind (opal_at_3 ! i) \<noteq> Stone) [0..<12] = [0, 1, 2, 4, 5, 6, 7, 8, 9, 10, 11]"
    by (simp add: opal_at_3_def i upt_12 ZODIAC_def)
  show ?thesis
    using DecalMarks_one_patch_per_mark [OF length_initialSlots, of studio_mesh 9 12 "2.6" False "''#3b3b3b''"]
      DecalMarks_one_patch_per_mark [OF o, of studio_mesh 9 12 "2.6" False "''#3b3b3b''"]
      z k k'
    by (simp add: length_initialSlots)
qed

text \<open>
  C6 as stated fails: for the default configuration, whose twelve slots are the twelve
  zodiac signs with aries in slot 0, and a target mesh not yet mounted, the number of
  decals is not 12.
\<close>

theorem DecalMarks_no_mesh_counterexample:
  "length initialSlots = 12
   \<and> initialSlots ! 0 = \<lparr>kind = Zodiac, slot_value = ''aries''\<rparr>
   \<and> length (DecalMarks None 9 12 2.6 initialSlots False ''#3b3b3b'') \<noteq> 12"
  by (simp add: DecalMarks_None) (simp add: initialSlots_def upt_12 ZODIAC_def)

text \<open>
  C7. For every positive band height and positive band width, the bevel thickness of the
  band built is at most 0.35 times the height and the bevel size at most 0.6 times the width.
\<close>

theorem Band_bevel_clamped:
  assumes "0 < bandHeight" and "0 < bandWidth"
    and "Band innerR bandWidth bandHeight color = Inr m"
  shows "eo_bevelThickness (eg_options (mesh_geometry m)) \<le> 0.35 * bandHeight
       \<and> eo_bevelSize (eg_options (mesh_geometry m)) \<le> 0.6 * bandWidth"
proof -
  have m: "m = projr (Band innerR bandWidth bandHeight color)" using assms(3) by simp
  show ?thesis
    using bevel_bounds [OF assms(1,2)]
    by (simp add: m Band_def band_geom_def Let_def)
qed

theorem Band_bevel_clamped_witness:
  "(0::real) < 2.2 \<and> (0::real) < 3
   \<and> eo_bevelThickness (eg_options (mesh_geometry (projr (Band 9 3 2.2 ''#d4af37'')))) \<le> 0.35 * 2.2
   \<and> eo_bevelSize (eg_options (mesh_geometry (projr (Band 9 3 2.2 ''#d4af37'')))) \<le> 0.6 * 3"
proof -
  have b: "Band 9 3 2.2 ''#d4af37'' = Inr (projr (Band 9 3 2.2 ''#d4af37''))"
    by (simp add: Band_def)
  show ?thesis
    using Band_bevel_clamped [OF _ _ b] by simp
qed

text \<open>
  C8. The three checks are independent: \<open>twelveSlots\<close> is decided by the number of slots
  alone, \<open>geometryValid\<close> by the geometry alone (outer radius above inner radius, positive
  inner diameter, positive band height) and \<open>slotsValid\<close> by the slots alone, so none
  changes when the inputs of the others change. With valid geometry, in a configuration of
  twelve slots one of which is a stone slot with a key outside the stone catalog,
  \<open>slotsValid\<close> is false while \<open>twelveSlots\<close> and \<open>geometryValid\<close> are true; in a
  configuration of eleven slots, \<open>twelveSlots\<close> is false while \<open>geometryValid\<close> is true.
\<close>

theorem validator_checks_independent:
  "(twelveSlots (tests slots innerDiameter innerR outerR bandHeight) \<longleftrightarrow> length slots = 12)
   \<and> (geometryValid (tests slots innerDiameter innerR outerR bandHeight)
        \<longleftrightarrow> innerR < outerR \<and> 0 < innerDiameter \<and> 0 < bandHeight)
   \<and> slotsValid (tests slots innerDiameter innerR outerR bandHeight)
       = slotsValid (tests slots innerDiameter' innerR' outerR' bandHeight')
   \<and> geometryValid (tests slots innerDiameter innerR outerR bandHeight)
       = geometryValid (tests slots' innerDiameter innerR outerR bandHeight)
   \<and> (length slots = length slots' \<longrightarrow>
        twelveSlots (tests slots innerDiameter innerR outerR bandHeight)
          = twelveSlots (tests slots' innerDiameter' innerR' outerR' bandHeight'))
   \<and> (innerR < outerR \<and> 0 < innerDiameter \<and> 0 < bandHeight
        \<and> length slots = 12 \<and> i < 12 \<and> kind (slots ! i) = Stone
        \<and> slot_value (slots ! i) \<notin> set (map st_key STONES) \<longrightarrow>
          \<not> slotsValid (tests slots innerDiameter innerR outerR bandHeight)
          \<and> twelveSlots (tests slots innerDiameter innerR outerR bandHeight)
          \<and> geometryValid (tests slots innerDiameter innerR outerR bandHeight))
   \<and> (innerR < outerR \<and> 0 < innerDiameter \<and> 0 < bandHeight \<and> length slots = 11 \<longrightarrow>
          \<not> twelveSlots (tests slots innerDiameter innerR outerR bandHeight)
          \<and> geometryValid (tests slots innerDiameter innerR outerR bandHeight))"
proof -
  have s1: "slotsValid (tests slots innerDiameter innerR outerR bandHeight)
       = slotsValid (tests slots innerDiameter' innerR' outerR' bandHeight')"
    by (simp only: slotsValid_iff)
  have g1: "geometryValid (tests slots innerDiameter innerR outerR bandHeight)
       = geometryValid (tests slots' innerDiameter innerR outerR bandHeight)"
    by (simp only: geometryValid_iff)
  have t1: "length slots = length slots' \<longrightarrow>
        twelveSlots (tests slots innerDiameter innerR outerR bandHeight)
          = twelveSlots (tests slots' innerDiameter' innerR' outerR' bandHeight')"
    by (simp add: twelveSlots_iff)
  have sc1: "innerR < outerR \<and> 0 < innerDiameter \<and> 0 < bandHeight
        \<and> length slots = 12 \<and> i < 12 \<and> kind (slots ! i) = Stone
        \<and> slot_value (slots ! i) \<notin> set (map st_key STONES) \<longrightarrow>
          \<not> slotsValid (tests slots innerDiameter innerR outerR bandHeight)
          \<and> twelveSlots (tests slots innerDiameter innerR outerR bandHeight)
          \<and> geometryValid (tests slots innerDiameter innerR outerR bandHeight)"
  proof (intro impI conjI)
    assume a: "innerR < outerR \<and> 0 < innerDiameter \<and> 0 < bandHeight
        \<and> length slots = 12 \<and> i < 12 \<and> kind (slots ! i) = Stone
        \<and> slot_value (slots ! i) \<notin> set (map st_key STONES)"
    then have mem: "slots ! i \<in> set slots" by simp
    show "\<not> slotsValid (tests slots innerDiameter innerR outerR bandHeight)"
    proof
      assume "slotsValid (tests slots innerDiameter innerR outerR bandHeight)"
      then have "kind (slots ! i) = Zodiac \<and> (\<exists>z \<in> set ZODIAC. z_key z = slot_value (slots ! i))
               \<or> kind (slots ! i) = Stone \<and> (\<exists>st \<in> set STONES. st_key st = slot_value (slots ! i))
               \<or> kind (slots ! i) = Text"
        using mem unfolding slotsValid_iff by blast
      moreover have "\<forall>st \<in> set STONES. st_key st \<noteq> slot_value (slots ! i)"
        using a by force
      ultimately show False using a by simp
    qed
    from a show "twelveSlots (tests slots innerDiameter innerR outerR bandHeight)"
      by (simp add: twelveSlots_iff)
    from a show "geometryValid (tests slots innerDiameter innerR outerR bandHeight)"
      by (simp add: geometryValid_iff)
  qed
  have sc2: "innerR < outerR \<and> 0 < innerDiameter \<and> 0 < bandHeight \<and> length slots = 11 \<longrightarrow>
          \<not> twelveSlots (tests slots innerDiameter innerR outerR bandHeight)
          \<and> geometryValid (tests slots innerDiameter innerR outerR bandHeight)"
    by (simp add: twelveSlots_iff geometryValid_iff)
  show ?thesis
    by (rule conjI [OF twelveSlots_iff conjI [OF geometryValid_iff
          conjI [OF s1 conjI [OF g1 conjI [OF t1 conjI [OF sc1 sc2]]]]]])
qed

theorem validator_checks_independent_witness:
  "(9::real) < 12 \<and> (0::real) < 18 \<and> (0::real) < 2.2
   \<and> length opal_at_3 = 12 \<and> (3::nat) < 12 \<and> kind (opal_at_3 ! 3) = Stone
   \<and> slot_value (opal_at_3 ! 3) \<notin> set (map st_key STONES)
   \<and> \<not> slotsValid (tests opal_at_3 18 9 12 2.2)
   \<and> twelveSlots (tests opal_at_3 18 9 12 2.2)
   \<and> geometryValid (tests opal_at_3 18 9 12 2.2)
   \<and> \<not> geometryValid (tests opal_at_3 18 9 9 2.2)
   \<and> length (take 11 initialSlots) = 11
   \<and> \<not> twelveSlots (tests (take 11 initialSlots) 18 9 12 2.2)
   \<and> geometryValid (tests (take 11 initialSlots) 18 9 12 2.2)"
proof -
  have o: "length opal_at_3 = 12 \<and> (3::nat) < 12 \<and> kind (opal_at_3 ! 3) = Stone
     \<and> slot_value (opal_at_3 ! 3) \<notin> set (map st_key STONES)"
    by (simp add: opal_at_3_def length_initialSlots STONES_def)
  have e: "length (take 11 initialSlots) = 11" by (simp add: length_initialSlots)
  show ?thesis
    using validator_checks_independent [of opal_at_3 18 9 12 "2.2" 18 9 12 "2.2" opal_at_3 3]
          validator_checks_independent [of opal_at_3 18 9 9 "2.2" 18 9 9 "2.2" opal_at_3 3]
          validator_checks_independent [of "take 11 initialSlots" 18 9 12 "2.2" 18 9 12 "2.2"
                                           "take 11 initialSlots" 0] o e
    by simp
qed

text \<open>
  C9. An unknown catalog key does not stop generation. For a zodiac key that is none of
  the twelve keys the rasterizer draws the placeholder \<^verbatim>\<open>?\<close>, and a zodiac slot with such
  a key, at an index below 12, gets its decal with that texture. A stone slot with a key
  outside the stone catalog, at an index below 12, gets its gem with the colour and the
  index of refraction of the first catalog entry, diamond.
\<close>

theorem unknown_keys_fall_back:
  "(signKey \<notin> set (map z_key ZODIAC) \<longrightarrow>
      tex_text (makeZodiacTexture signKey color) = codepoints_of ''?'')
   \<and> (i < 12 \<and> i < length slots \<and> kind (slots ! i) = Zodiac
        \<and> slot_value (slots ! i) \<notin> set (map z_key ZODIAC) \<longrightarrow>
      (\<exists>d \<in> set (DecalMarks (Some mesh) innerR outerR sz slots inside markColor).
          d_key d = i \<and> tex_text (d_map d) = codepoints_of ''?''))
   \<and> (i < 12 \<and> i < length slots \<and> kind (slots ! i) = Stone
        \<and> slot_value (slots ! i) \<notin> set (map st_key STONES) \<longrightarrow>
      (\<exists>g \<in> set (Gems innerR outerR height sz slots inside).
          g_key g = i \<and> g_color g = st_hex (STONES ! 0) \<and> g_color g = ''#ffffff''
          \<and> g_ior g = 2.4))"
proof (intro conjI impI)
  assume "signKey \<notin> set (map z_key ZODIAC)"
  then show "tex_text (makeZodiacTexture signKey color) = codepoints_of ''?''"
    by (rule makeZodiacTexture_unknown)
next
  assume a: "i < 12 \<and> i < length slots \<and> kind (slots ! i) = Zodiac
        \<and> slot_value (slots ! i) \<notin> set (map z_key ZODIAC)"
  let ?d = "decal_at mesh innerR outerR sz (max 0.6 (sz * 0.5)) inside markColor i (slots ! i)"
  have "?d \<in> set (DecalMarks (Some mesh) innerR outerR sz slots inside markColor)"
    unfolding in_DecalMarks_iff using a by auto
  moreover have "d_map ?d = makeZodiacTexture (slot_value (slots ! i)) markColor"
    using a by (simp add: decal_at_def Let_def)
  ultimately show "\<exists>d \<in> set (DecalMarks (Some mesh) innerR outerR sz slots inside markColor).
          d_key d = i \<and> tex_text (d_map d) = codepoints_of ''?''"
    using a makeZodiacTexture_unknown [of "slot_value (slots ! i)" markColor]
    by (intro bexI [of _ ?d]) (simp_all add: d_key_decal_at)
next
  assume a: "i < 12 \<and> i < length slots \<and> kind (slots ! i) = Stone
        \<and> slot_value (slots ! i) \<notin> set (map st_key STONES)"
  let ?g = "gem_at innerR outerR height sz inside i (slots ! i)"
  have "?g \<in> set (Gems innerR outerR height sz slots inside)"
    unfolding in_Gems_iff using a by auto
  moreover have "st_hex (STONES ! 0) = ''#ffffff''" by (simp add: STONES_def)
  ultimately show "\<exists>g \<in> set (Gems innerR outerR height sz slots inside).
          g_key g = i \<and> g_color g = st_hex (STONES ! 0) \<and> g_color g = ''#ffffff''
          \<and> g_ior g = 2.4"
    using a gem_at_unknown [of "slots ! i" innerR outerR height sz inside i]
    by (intro bexI [of _ ?g]) (simp_all add: g_key_gem_at)
qed

theorem unknown_keys_fall_back_witness:
  "''ophiuchus'' \<notin> set (map z_key ZODIAC)
   \<and> tex_text (makeZodiacTexture ''ophiuchus'' ''#3b3b3b'') = codepoints_of ''?''
   \<and> map (\<lambda>d. tex_text (d_map d))
         (DecalMarks (Some studio_mesh) 9 12 2.6 [\<lparr>kind = Zodiac, slot_value = ''ophiuchus''\<rparr>]
                     False ''#3b3b3b'') = [codepoints_of ''?'']
   \<and> ''opal'' \<notin> set (map st_key STONES)
   \<and> map g_color (Gems 9 12 2.2 2.6 [\<lparr>kind = Stone, slot_value = ''opal''\<rparr>] False) = [''#ffffff'']
   \<and> map g_ior (Gems 9 12 2.2 2.6 [\<lparr>kind = Stone, slot_value = ''opal''\<rparr>] False) = [2.4]"
proof -
  have z: "''ophiuchus'' \<notin> set (map z_key ZODIAC)" by (simp add: ZODIAC_def)
  have s: "''opal'' \<notin> set (map st_key STONES)" by (simp add: STONES_def)
  have h: "st_hex (STONES ! 0) = ''#ffffff''" by (simp add: STONES_def)
  show ?thesis
    using z s h
      unknown_keys_fall_back [of "''ophiuchus''" "''#3b3b3b''" 0
        "[\<lparr>kind = Zodiac, slot_value = ''ophiuchus''\<rparr>]" studio_mesh 9 12 "2.6" False "''#3b3b3b''" "2.2"]
      unknown_keys_fall_back [of "''ophiuchus''" "''#3b3b3b''" 0
        "[\<lparr>kind = Stone, slot_value = ''opal''\<rparr>]" studio_mesh 9 12 "2.6" False "''#3b3b3b''" "2.2"]
    by (simp add: DecalMarks_single Gems_single)
qed

text \<open>
  C10, as amended. For a slot array of any length both generators return a list and read
  the indices 0 to 11 only: their results are those for the first twelve entries. The gem
  generator produces one gem for each index below 12 that the array has and that holds a
  stone, and nothing else. The decal generator, for a mounted target mesh, produces one
  decal for each index below 12 that the array has and that holds a zodiac or text slot,
  and nothing else; as long as the target mesh is not mounted it produces nothing.
\<close>

theorem generators_index_range:
  "DecalMarks targetRef innerR outerR sz slots inside markColor
     = DecalMarks targetRef innerR outerR sz (take 12 slots) inside markColor
   \<and> Gems innerR outerR height sz slots inside = Gems innerR outerR height sz (take 12 slots) inside
   \<and> map g_key (Gems innerR outerR height sz slots inside)
       = filter (\<lambda>i. i < length slots \<and> kind (slots ! i) = Stone) [0..<12]
   \<and> map d_key (DecalMarks (Some mesh) innerR outerR sz slots inside markColor)
       = filter (\<lambda>i. i < length slots \<and> kind (slots ! i) \<noteq> Stone) [0..<12]
   \<and> DecalMarks None innerR outerR sz slots inside markColor = []"
  by (simp only: DecalMarks_take Gems_take map_g_key_Gems map_d_key_DecalMarks DecalMarks_None
                 simp_thms)

theorem generators_index_range_witness:
  "map g_key (Gems 9 12 2.2 2.6 [\<lparr>kind = Stone, slot_value = ''ruby''\<rparr>,
                                  \<lparr>kind = Text, slot_value = ''AB''\<rparr>] False) = [0]
   \<and> map d_key (DecalMarks (Some studio_mesh) 9 12 2.6
                  [\<lparr>kind = Stone, slot_value = ''ruby''\<rparr>, \<lparr>kind = Text, slot_value = ''AB''\<rparr>]
                  False ''#3b3b3b'') = [1]
   \<and> length thirteen_slots = 13
   \<and> Gems 9 12 2.2 2.6 thirteen_slots False = Gems 9 12 2.2 2.6 (take 12 thirteen_slots) False
   \<and> map g_key (Gems 9 12 2.2 2.6 thirteen_slots False) = [0]"
proof -
  have t: "thirteen_slots =
     [\<lparr>kind = Stone, slot_value = ''ruby''\<rparr>, \<lparr>kind = Text, slot_value = ''AB''\<rparr>,
      \<lparr>kind = Zodiac, slot_value = ''leo''\<rparr>, \<lparr>kind = Zodiac, slot_value = ''leo''\<rparr>,
      \<lparr>kind = Zodiac, slot_value = ''leo''\<rparr>, \<lparr>kind = Zodiac, slot_value = ''leo''\<rparr>,
      \<lparr>kind = Zodiac, slot_value = ''leo''\<rparr>, \<lparr>kind = Zodiac, slot_value = ''leo''\<rparr>,
      \<lparr>kind = Zodiac, slot_value = ''leo''\<rparr>, \<lparr>kind = Zodiac, slot_value = ''leo''\<rparr>,
      \<lparr>kind = Zodiac, slot_value = ''leo''\<rparr>, \<lparr>kind = Zodiac, slot_value = ''leo''\<rparr>,
      \<lparr>kind = Stone, slot_value = ''topaz''\<rparr>]"
    unfolding thirteen_slots_def by code_simp
  have a: "filter (\<lambda>i. i < length thirteen_slots \<and> kind (thirteen_slots ! i) = Stone) [0..<12] = [0]"
    unfolding t upt_12 by simp
  have b: "filter (\<lambda>i. i < length [\<lparr>kind = Stone, slot_value = ''ruby''\<rparr>, \<lparr>kind = Text, slot_value = ''AB''\<rparr>]
                      \<and> kind ([\<lparr>kind = Stone, slot_value = ''ruby''\<rparr>, \<lparr>kind = Text, slot_value = ''AB''\<rparr>] ! i) = Stone)
                  [0..<12] = [0]"
    unfolding upt_12 by simp
  have c: "filter (\<lambda>i. i < length [\<lparr>kind = Stone, slot_value = ''ruby''\<rparr>, \<lparr>kind = Text, slot_value = ''AB''\<rparr>]
                      \<and> kind ([\<lparr>kind = Stone, slot_value = ''ruby''\<rparr>, \<lparr>kind = Text, slot_value = ''AB''\<rparr>] ! i) \<noteq> Stone)
                  [0..<12] = [1]"
    unfolding upt_12 by simp
  have l: "length thirteen_slots = 13" unfolding t by simp
  note two = generators_index_range [of "Some studio_mesh" 9 12 "2.6"
            "[\<lparr>kind = Stone, slot_value = ''ruby''\<rparr>, \<lparr>kind = Text, slot_value = ''AB''\<rparr>]"
            False "''#3b3b3b''" "2.2" studio_mesh]
  note thirteen = generators_index_range [of "Some studio_mesh" 9 12 "2.6" thirteen_slots
            False "''#3b3b3b''" "2.2" studio_mesh]
  note r1 = two [THEN conjunct2, THEN conjunct2, THEN conjunct1, unfolded b]
  note r2 = two [THEN conjunct2, THEN conjunct2, THEN conjunct2, THEN conjunct1, unfolded c]
  note r3 = thirteen [THEN conjunct2, THEN conjunct1]
  note r4 = thirteen [THEN conjunct2, THEN conjunct2, THEN conjunct1, unfolded a]
  show ?thesis
    by (rule conjI [OF r1 conjI [OF r2 conjI [OF l conjI [OF r3 r4]]]])
qed

text \<open>
  C10 as stated fails: for the first eleven default slots, which fail the twelve-slot
  check, and a target mesh not yet mounted, the decal generator produces nothing although
  slot 0 is a defined zodiac slot.
\<close>

theorem generators_no_mesh_counterexample:
  "length (take 11 initialSlots) = 11
   \<and> \<not> twelveSlots (tests (take 11 initialSlots) 18 9 12 2.2)
   \<and> slot_at (take 11 initialSlots) 0 = Some \<lparr>kind = Zodiac, slot_value = ''aries''\<rparr>
   \<and> DecalMarks None 9 12 2.6 (take 11 initialSlots) False ''#3b3b3b'' = []"
  by (simp add: DecalMarks_None twelveSlots_iff slot_at_def length_initialSlots)
     (simp add: initialSlots_def upt_12 ZODIAC_def)

end
